theory Spec2Isabelle
  imports Main "HOL-Library.AList"
begin

section \<open>JavaScript values\<close>

text \<open>
  The values that flow through \<^verbatim>\<open>src/nano-ql-client.ts\<close>. TypeScript's types are erased
  at run time, so \<^verbatim>\<open>variables\<close>, \<^verbatim>\<open>operationName\<close> and the default options are
  plain JavaScript values. An object is the list of its own enumerable string-keyed
  properties in enumeration order (keys distinct in a real object). Numbers are the
  integer-valued ones. \<open>Headers\<close> is an instance of the platform's Headers class (its
  entries live in an internal slot, not in own properties), \<open>AbortSignal c\<close> is the signal
  of the controller numbered \<open>c\<close>, and \<open>ErrorObj n\<close> is an error object whose
  \<^verbatim>\<open>name\<close> is \<open>n\<close>.
\<close>

datatype jsval =
    Undefined
  | Null
  | Bool bool
  | Num int
  | Str string
  | Arr "jsval list"
  | Obj "(string \<times> jsval) list"
  | Headers "(string \<times> string) list"
  | AbortSignal nat
  | ErrorObj string

text \<open>ToBoolean, as the \<^verbatim>\<open>if (variables)\<close> and \<^verbatim>\<open>if (operationName)\<close> tests apply it.\<close>

fun truthy :: "jsval \<Rightarrow> bool" where
  "truthy Undefined = False"
| "truthy Null = False"
| "truthy (Bool b) = b"
| "truthy (Num n) = (n \<noteq> 0)"
| "truthy (Str s) = (s \<noteq> [])"
| "truthy _ = True"

text \<open>Decimal text of an array index, the property key of an array element.\<close>

definition digit :: "nat \<Rightarrow> char" where
  "digit d = char_of (48 + d)"

fun show_nat :: "nat \<Rightarrow> string" where
  "show_nat n = (if n < 10 then [digit n] else show_nat (n div 10) @ [digit (n mod 10)])"

declare show_nat.simps [simp del]

text \<open>
  The own enumerable properties that an object spread \<^verbatim>\<open>{...v}\<close> copies: the
  properties of a plain object, the index properties of an array or of a string, and
  nothing for \<^verbatim>\<open>undefined\<close>, \<^verbatim>\<open>null\<close>, the other primitives and the platform objects.
\<close>

fun own_props :: "jsval \<Rightarrow> (string \<times> jsval) list" where
  "own_props (Obj kvs) = kvs"
| "own_props (Arr xs) = zip (map show_nat [0..<length xs]) xs"
| "own_props (Str s) = zip (map show_nat [0..<length s]) (map (\<lambda>c. Str [c]) s)"
| "own_props _ = []"

text \<open>
  An object literal \<^verbatim>\<open>{ ...a, k: v, ... }\<close>: the properties are defined from left to
  right on an empty object; defining an existing key replaces its value in place, a new
  key is added at the end.
\<close>

definition set_prop :: "(string \<times> jsval) list \<Rightarrow> string \<times> jsval \<Rightarrow> (string \<times> jsval) list" where
  "set_prop kvs p = AList.update (fst p) (snd p) kvs"

definition object_literal :: "(string \<times> jsval) list \<Rightarrow> jsval" where
  "object_literal ps = Obj (foldl set_prop [] ps)"

text \<open>
  Property read \<^verbatim>\<open>v?.k\<close>: the own property \<open>k\<close> of \<open>v\<close>, \<^verbatim>\<open>undefined\<close> when
  there is none (also for \<^verbatim>\<open>undefined\<close> and \<^verbatim>\<open>null\<close>, by the optional chaining).
  Inherited properties are not modelled; the keys read here (\<^verbatim>\<open>headers\<close>,
  \<^verbatim>\<open>signal\<close>, \<^verbatim>\<open>body\<close>, header names) are defined on no prototype.
\<close>

definition get_prop :: "jsval \<Rightarrow> string \<Rightarrow> jsval" where
  "get_prop v k = (case map_of (own_props v) k of Some x \<Rightarrow> x | None \<Rightarrow> Undefined)"

section \<open>The platform: URL, AbortController, fetch\<close>

text \<open>A URL object, known by its normalized text (\<^verbatim>\<open>href\<close>, what \<^verbatim>\<open>toString()\<close> returns).\<close>

datatype URL = URL (href: string)

text \<open>
  The library functions the client calls and does not define, taken as parameters:
  \<^verbatim>\<open>new URL(text)\<close> (\<open>None\<close> when it throws), graphql's \<^verbatim>\<open>print\<close> (\<open>None\<close> when it
  throws) and \<^verbatim>\<open>JSON.stringify\<close> (total on the tree-shaped values of \<open>jsval\<close>).
\<close>

record 'd host =
  URL_parse :: "string \<Rightarrow> URL option"
  print :: "'d \<Rightarrow> string option"
  JSON_stringify :: "jsval \<Rightarrow> string"

datatype error = InvalidEndpoint | SerializationError

datatype Response = Response (status: nat) (body_text: string)

datatype promise = Pending | Fulfilled Response | Rejected jsval

record fetch_call =
  input :: string
  init :: jsval
  promise :: promise

section \<open>NanoQLClient\<close>

record NanoQLClient =
  priv_url :: URL
  priv_options :: jsval

datatype url_arg = UrlString string | UrlObject URL

text \<open>The constructor (lines 14-20): a string is parsed, a URL object is stored as it is.\<close>

definition new_NanoQLClient :: "'d host \<Rightarrow> url_arg \<Rightarrow> jsval \<Rightarrow> error + NanoQLClient" where
  "new_NanoQLClient h url defaultOptions =
     (case url of
        UrlString text \<Rightarrow>
          (case URL_parse h text of
             None \<Rightarrow> Inl InvalidEndpoint
           | Some u \<Rightarrow> Inr \<lparr>priv_url = u, priv_options = defaultOptions\<rparr>)
      | UrlObject u \<Rightarrow> Inr \<lparr>priv_url = u, priv_options = defaultOptions\<rparr>)"

text \<open>The accessors (lines 50-56).\<close>

definition url :: "NanoQLClient \<Rightarrow> string" where
  "url c = href (priv_url c)"

definition options :: "NanoQLClient \<Rightarrow> jsval" where
  "options c = priv_options c"

text \<open>
  The program state: the client instance, the abort controllers created so far (each
  \<open>None\<close> while not aborted, \<open>Some reason\<close> once aborted) and the calls made to
  \<^verbatim>\<open>fetch\<close>, each with the state of the promise it returned.
\<close>

record state =
  this :: NanoQLClient
  controllers :: "jsval option list"
  fetches :: "fetch_call list"

definition init_state :: "NanoQLClient \<Rightarrow> state" where
  "init_state c = \<lparr>this = c, controllers = [], fetches = []\<rparr>"

text \<open>\<^verbatim>\<open>new AbortController()\<close>: a fresh controller, not aborted.\<close>

definition new_AbortController :: "state \<Rightarrow> nat \<times> state" where
  "new_AbortController s =
     (length (controllers s), s\<lparr>controllers := controllers s @ [None]\<rparr>)"

text \<open>The abort reason of a signal value, if it is an aborted signal.\<close>

definition signal_reason :: "state \<Rightarrow> jsval \<Rightarrow> jsval option" where
  "signal_reason s v =
     (case v of
        AbortSignal c \<Rightarrow> (if c < length (controllers s) then controllers s ! c else None)
      | _ \<Rightarrow> None)"

text \<open>
  \<^verbatim>\<open>controller.abort(reason)\<close> after the DOM standard: nothing happens when the signal
  is already aborted; otherwise the reason is stored (an \<^verbatim>\<open>AbortError\<close> exception when
  none is given) and every fetch that was given this signal and is still pending is
  rejected with the reason.
\<close>

definition abort_fetch :: "nat \<Rightarrow> jsval \<Rightarrow> fetch_call \<Rightarrow> fetch_call" where
  "abort_fetch c r f =
     (if get_prop (init f) ''signal'' = AbortSignal c \<and> promise f = Pending
      then f\<lparr>promise := Rejected r\<rparr> else f)"

definition controller_abort :: "nat \<Rightarrow> jsval \<Rightarrow> state \<Rightarrow> state" where
  "controller_abort c reason s =
     (if c < length (controllers s) \<and> controllers s ! c = None
      then (let r = (if reason = Undefined then ErrorObj ''AbortError'' else reason)
            in s\<lparr>controllers := (controllers s)[c := Some r],
                 fetches := map (abort_fetch c r) (fetches s)\<rparr>)
      else s)"

text \<open>
  \<^verbatim>\<open>fetch(input, init)\<close> after the Fetch standard: the call is made and returns a
  promise (numbered by its position in \<open>fetches\<close>), pending unless the signal in
  \<open>init\<close> is already aborted.
\<close>

definition fetch :: "string \<Rightarrow> jsval \<Rightarrow> state \<Rightarrow> nat \<times> state" where
  "fetch inp ini s =
     (length (fetches s),
      s\<lparr>fetches := fetches s @
          [\<lparr>input = inp, init = ini,
            promise = (case signal_reason s (get_prop ini ''signal'') of
                         Some r \<Rightarrow> Rejected r | None \<Rightarrow> Pending)\<rparr>]\<rparr>)"

text \<open>The transport settles a pending promise; a settled promise stays as it is.\<close>

definition settle :: "nat \<Rightarrow> promise \<Rightarrow> state \<Rightarrow> state" where
  "settle i outcome s =
     (if i < length (fetches s) \<and> promise (fetches s ! i) = Pending
      then s\<lparr>fetches := (fetches s)[i := (fetches s ! i)\<lparr>promise := outcome\<rparr>]\<rparr>
      else s)"

record 'd ExecuteParams =
  document :: 'd
  variables :: jsval
  operationName :: jsval

record handle =
  response :: nat
  abort :: "jsval \<Rightarrow> state \<Rightarrow> state"

text \<open>Lines 26-28: the payload object.\<close>

definition payload :: "string \<Rightarrow> jsval \<Rightarrow> jsval \<Rightarrow> (string \<times> jsval) list" where
  "payload query vars opname =
     (let body = [(''query'', Str query)];
          body = (if truthy vars then set_prop body (''variables'', vars) else body);
          body = (if truthy opname then set_prop body (''operationName'', opname) else body)
      in body)"

text \<open>Lines 31-40: the request options.\<close>

definition request :: "jsval \<Rightarrow> string \<Rightarrow> jsval \<Rightarrow> jsval" where
  "request opts body signal =
     object_literal
       (own_props opts @
        [(''method'', Str ''POST''),
         (''headers'',
            object_literal
              (own_props (get_prop opts ''headers'') @
               [(''Content-Type'', Str ''application/json'')])),
         (''body'', Str body),
         (''signal'', signal)])"

text \<open>
  \<^verbatim>\<open>execute\<close> (lines 22-48). An exception of \<^verbatim>\<open>print\<close> leaves the function before
  \<^verbatim>\<open>fetch\<close> is reached. The returned \<^verbatim>\<open>abort\<close> is the closure over this call's
  controller.
\<close>

definition execute :: "'d host \<Rightarrow> 'd ExecuteParams \<Rightarrow> state \<Rightarrow> (error + handle) \<times> state" where
  "execute h p s =
     (let (controller, s1) = new_AbortController s;
          signal = AbortSignal controller
      in case print h (document p) of
           None \<Rightarrow> (Inl SerializationError, s1)
         | Some query \<Rightarrow>
             (let body = payload query (variables p) (operationName p);
                  req = request (options (this s1)) (JSON_stringify h (Obj body)) signal;
                  (resp, s2) = fetch (url (this s1)) req s1
              in (Inr \<lparr>response = resp, abort = controller_abort controller\<rparr>, s2)))"

section \<open>Runs of the program\<close>

text \<open>
  What can happen to a client after its construction: a call of \<^verbatim>\<open>execute\<close>, a call
  of \<^verbatim>\<open>abort\<close> on a controller, and the transport settling a promise.
\<close>

datatype 'd event =
    Execute "'d ExecuteParams"
  | Abort nat jsval
  | Settle nat promise

fun step :: "'d host \<Rightarrow> state \<Rightarrow> 'd event \<Rightarrow> state" where
  "step h s (Execute p) = snd (execute h p s)"
| "step h s (Abort c reason) = controller_abort c reason s"
| "step h s (Settle i outcome) = settle i outcome s"

definition run :: "'d host \<Rightarrow> 'd event list \<Rightarrow> state \<Rightarrow> state" where
  "run h evs s = foldl (step h) s evs"

text \<open>The signal that a fetch was given, and the promise it returned.\<close>

definition signal_of :: "fetch_call \<Rightarrow> jsval" where
  "signal_of f = get_prop (init f) ''signal''"


text \<open>
  Fetch \<open>i\<close> was given the signal of controller \<open>c\<close>, both exist, and the fetch is
  no longer pending once the controller is aborted.
\<close>

definition call_inv :: "state \<Rightarrow> nat \<Rightarrow> nat \<Rightarrow> bool" where
  "call_inv s c i =
     (i < length (fetches s) \<and> c < length (controllers s) \<and>
      signal_of (fetches s ! i) = AbortSignal c \<and>
      (controllers s ! c = None \<or> promise (fetches s ! i) \<noteq> Pending))"

text \<open>
  The states that runs produce: every signal that a fetch carries is the signal of a
  controller that exists.
\<close>

definition wf_fetch :: "state \<Rightarrow> fetch_call \<Rightarrow> bool" where
  "wf_fetch s f =
     (case signal_of f of AbortSignal k \<Rightarrow> k < length (controllers s) | _ \<Rightarrow> True)"

definition wf_state :: "state \<Rightarrow> bool" where
  "wf_state s = list_all (wf_fetch s) (fetches s)"





section \<open>A sample host\<close>

text \<open>
  A concrete host on which the theorems are evaluated, after the mocks of
  \<^verbatim>\<open>src/nano-ql-client.test.ts\<close>: addresses are the texts that start with
  \<^verbatim>\<open>https://\<close>, a document is its own text and the empty document is rejected, and
  values are written as JSON text (control characters are left as they are).
\<close>

definition join :: "string \<Rightarrow> string list \<Rightarrow> string" where
  "join sep xs = (case xs of [] \<Rightarrow> [] | y # ys \<Rightarrow> y @ concat (map (\<lambda>z. sep @ z) ys))"

definition quote :: "string \<Rightarrow> string" where
  "quote s = [CHR 0x22] @ concat (map (\<lambda>c. if c = CHR 0x22 \<or> c = CHR 0x5C then [CHR 0x5C, c] else [c]) s) @ [CHR 0x22]"

fun sample_stringify :: "jsval \<Rightarrow> string"
  and sample_elements :: "jsval list \<Rightarrow> string list"
  and sample_members :: "(string \<times> jsval) list \<Rightarrow> string list" where
  "sample_stringify (Str s) = quote s"
| "sample_stringify (Num n) = (if n < 0 then ''-'' @ show_nat (nat (- n)) else show_nat (nat n))"
| "sample_stringify (Bool b) = (if b then ''true'' else ''false'')"
| "sample_stringify (Arr xs) = ''['' @ join '','' (sample_elements xs) @ '']''"
| "sample_stringify (Obj kvs) = ''{'' @ join '','' (sample_members kvs) @ ''}''"
| "sample_stringify (ErrorObj n) = ''{}''"
| "sample_stringify (Headers hs) = ''{}''"
| "sample_stringify (AbortSignal c) = ''{}''"
| "sample_stringify Null = ''null''"
| "sample_stringify Undefined = ''null''"
| "sample_elements [] = []"
| "sample_elements (x # xs) = sample_stringify x # sample_elements xs"
| "sample_members [] = []"
| "sample_members (kv # kvs) =
     (if snd kv = Undefined then sample_members kvs
      else (quote (fst kv) @ '':'' @ sample_stringify (snd kv)) # sample_members kvs)"

definition sample_host :: "string host" where
  "sample_host =
     \<lparr>URL_parse = (\<lambda>text. if take 8 text = ''https://'' then Some (URL text) else None),
      print = (\<lambda>d. if d = [] then None else Some d),
      JSON_stringify = sample_stringify\<rparr>"

definition sample_client :: NanoQLClient where
  "sample_client =
     \<lparr>priv_url = URL ''https://example.com/graphql'',
      priv_options =
        Obj [(''headers'', Obj [(''Authorization'', Str ''Bearer token'')]),
             (''cache'', Str ''no-store'')]\<rparr>"

text \<open>The call of the test "sends variables and operation name", and the state after it.\<close>

definition sample_params :: "string ExecuteParams" where
  "sample_params =
     \<lparr>document = ''query GetUser($id: ID!) { user(id: $id) { name } }'',
      variables = Obj [(''id'', Str ''123'')],
      operationName = Str ''GetUser''\<rparr>"

definition sample_state :: state where
  "sample_state = snd (execute sample_host sample_params (init_state sample_client))"

section \<open>Object literals and property reads\<close>

lemma get_prop_Obj [simp]:
  "get_prop (Obj kvs) k = (case map_of kvs k of Some v \<Rightarrow> v | None \<Rightarrow> Undefined)"
  by (simp add: get_prop_def)

lemma map_of_foldl_set_prop:
  "map_of (foldl set_prop acc ps) = map_of acc ++ map_of (rev ps)"
  by (induction ps arbitrary: acc) (auto simp: set_prop_def update_conv' map_add_def fun_eq_iff split: option.splits)


lemma map_of_object_props:
  "map_of (foldl set_prop [] ps) = map_of (rev ps)"
  by (simp add: map_of_foldl_set_prop)

lemma get_prop_object_literal:
  "get_prop (object_literal ps) k = (case map_of (rev ps) k of Some v \<Rightarrow> v | None \<Rightarrow> Undefined)"
  by (simp add: object_literal_def map_of_object_props)

lemma request_signal [simp]: "get_prop (request opts body sig) ''signal'' = sig"
  by (simp add: request_def get_prop_object_literal)

lemma request_body [simp]: "get_prop (request opts body sig) ''body'' = Str body"
  by (simp add: request_def get_prop_object_literal)

lemma request_method [simp]: "get_prop (request opts body sig) ''method'' = Str ''POST''"
  by (simp add: request_def get_prop_object_literal)


lemma request_headers [simp]:
  "get_prop (request opts body sig) ''headers'' =
     object_literal (own_props (get_prop opts ''headers'') @
                     [(''Content-Type'', Str ''application/json'')])"
  by (simp add: request_def get_prop_object_literal)




lemma map_of_rev_zip_in_set:
  "map_of (rev (zip ks vs)) k = Some v \<Longrightarrow> v \<in> set vs"
  by (auto dest!: map_of_SomeD set_zip_rightD)

subsection \<open>The payload\<close>

lemma payload_eq:
  "payload q vars opname =
     (''query'', Str q) #
     (if truthy vars then [(''variables'', vars)] else []) @
     (if truthy opname then [(''operationName'', opname)] else [])"
  by (simp add: payload_def set_prop_def Let_def)

lemma truthy_defined: "truthy v \<Longrightarrow> v \<noteq> Undefined \<and> v \<noteq> Null"
  by (cases v) simp_all

section \<open>The two outcomes of execute\<close>

lemma execute_throws:
  "print h (document p) = None \<Longrightarrow>
   execute h p s = (Inl SerializationError, s\<lparr>controllers := controllers s @ [None]\<rparr>)"
  by (simp add: execute_def new_AbortController_def)

lemma execute_returns:
  "print h (document p) = Some q \<Longrightarrow>
   execute h p s =
     (Inr \<lparr>response = length (fetches s), abort = controller_abort (length (controllers s))\<rparr>,
      s\<lparr>controllers := controllers s @ [None],
        fetches := fetches s @
          [\<lparr>input = url (this s),
            init = request (options (this s))
                     (JSON_stringify h (Obj (payload q (variables p) (operationName p))))
                     (AbortSignal (length (controllers s))),
            promise = Pending\<rparr>]\<rparr>)"
  by (simp add: execute_def new_AbortController_def fetch_def signal_reason_def Let_def)

lemma execute_Inr_print:
  "execute h p s = (Inr hdl, s') \<Longrightarrow> \<exists>q. print h (document p) = Some q"
  by (cases "print h (document p)") (auto simp: execute_throws)



subsection \<open>The client instance is never written\<close>

lemma this_execute [simp]: "this (snd (execute h p s)) = this s"
  by (cases "print h (document p)") (simp_all add: execute_throws execute_returns)

lemma this_controller_abort [simp]: "this (controller_abort c r s) = this s"
  by (simp add: controller_abort_def Let_def)

lemma this_settle [simp]: "this (settle i out s) = this s"
  by (simp add: settle_def)

lemma this_step [simp]: "this (step h s e) = this s"
  by (cases e) simp_all

lemma this_run [simp]: "this (run h evs s) = this s"
  unfolding run_def by (induction evs arbitrary: s) simp_all

lemma run_Nil [simp]: "run h [] s = s"
  by (simp add: run_def)

lemma run_Cons [simp]: "run h (e # evs) s = run h evs (step h s e)"
  by (simp add: run_def)

subsection \<open>Fetches that an abort leaves alone\<close>

lemma abort_fetch_other:
  "signal_of f \<noteq> AbortSignal c \<Longrightarrow> abort_fetch c r f = f"
  by (simp add: abort_fetch_def signal_of_def)


subsection \<open>A call and its controller\<close>

lemma call_inv_execute: "call_inv s c i \<Longrightarrow> call_inv (snd (execute h p s)) c i"
  by (cases "print h (document p)")
     (auto simp: execute_throws execute_returns call_inv_def nth_append)

lemma call_inv_controller_abort:
  "call_inv s c i \<Longrightarrow> call_inv (controller_abort c' r s) c i"
  by (auto simp: call_inv_def controller_abort_def Let_def nth_list_update abort_fetch_def signal_of_def)

lemma call_inv_settle: "call_inv s c i \<Longrightarrow> call_inv (settle j out s) c i"
  by (auto simp: call_inv_def settle_def nth_list_update signal_of_def)

lemma call_inv_step: "call_inv s c i \<Longrightarrow> call_inv (step h s e) c i"
  by (cases e) (simp_all add: call_inv_execute call_inv_controller_abort call_inv_settle)

lemma call_inv_run: "call_inv s c i \<Longrightarrow> call_inv (run h evs s) c i"
  by (induction evs arbitrary: s) (simp_all add: call_inv_step)

lemma call_inv_after_execute:
  "execute h p s = (Inr hdl, s') \<Longrightarrow>
   call_inv s' (length (controllers s)) (response hdl) \<and>
   abort hdl = controller_abort (length (controllers s)) \<and>
   response hdl = length (fetches s)"
  by (cases "print h (document p)")
     (auto simp: execute_throws execute_returns call_inv_def signal_of_def nth_append)

subsection \<open>What abort changes\<close>

lemma controller_abort_other_fetch:
  "i < length (fetches s) \<Longrightarrow> signal_of (fetches s ! i) \<noteq> AbortSignal c \<Longrightarrow>
   fetches (controller_abort c r s) ! i = fetches s ! i"
  by (simp add: controller_abort_def Let_def abort_fetch_other)



lemma signal_reason_controller_abort_other:
  "c' \<noteq> c \<Longrightarrow>
   signal_reason (controller_abort c r s) (AbortSignal c') = signal_reason s (AbortSignal c')"
  by (simp add: signal_reason_def controller_abort_def Let_def)


subsection \<open>Well-formed states\<close>


lemma wf_fetch_mono:
  "wf_fetch s f \<Longrightarrow> length (controllers s) \<le> length (controllers s') \<Longrightarrow> wf_fetch s' f"
  by (auto simp: wf_fetch_def split: jsval.splits)

lemma wf_state_execute: "wf_state s \<Longrightarrow> wf_state (snd (execute h p s))"
proof (cases "print h (document p)")
  case None
  assume "wf_state s"
  then show ?thesis
    by (auto simp: execute_throws [OF None] wf_state_def list_all_iff intro: wf_fetch_mono)
next
  case (Some q)
  assume "wf_state s"
  then show ?thesis
    by (auto simp: execute_returns [OF Some] wf_state_def list_all_iff wf_fetch_def signal_of_def
             split: jsval.splits)
qed

lemma wf_state_controller_abort: "wf_state s \<Longrightarrow> wf_state (controller_abort c r s)"
  by (auto simp: controller_abort_def Let_def wf_state_def list_all_iff wf_fetch_def
        signal_of_def abort_fetch_def split: jsval.splits)

lemma wf_state_settle: "wf_state s \<Longrightarrow> wf_state (settle i out s)"
  by (auto simp: settle_def wf_state_def list_all_length wf_fetch_def signal_of_def
        nth_list_update split: jsval.splits)

lemma wf_state_step: "wf_state s \<Longrightarrow> wf_state (step h s e)"
  by (cases e) (simp_all add: wf_state_execute wf_state_controller_abort wf_state_settle)

lemma wf_state_run: "wf_state s \<Longrightarrow> wf_state (run h evs s)"
  by (induction evs arbitrary: s) (simp_all add: wf_state_step)

subsection \<open>The only carrier of a signal\<close>










subsection \<open>Where a rejection comes from\<close>







subsection \<open>The sample call\<close>

lemma sample_print: "d \<noteq> [] \<Longrightarrow> print sample_host d = Some d"
  by (simp add: sample_host_def)

lemma sample_host_returns:
  assumes "document p \<noteq> []"
  shows "execute sample_host p s =
     (Inr \<lparr>response = length (fetches s), abort = controller_abort (length (controllers s))\<rparr>,
      snd (execute sample_host p s))"
  using execute_returns [OF sample_print [OF assms], of s] by simp

lemma sample_document: "document sample_params \<noteq> []"
  by (simp add: sample_params_def)

lemma sample_execute:
  "execute sample_host sample_params (init_state sample_client) =
     (Inr \<lparr>response = 0, abort = controller_abort 0\<rparr>, sample_state)"
  using sample_host_returns [OF sample_document, of "init_state sample_client"]
  by (simp add: sample_state_def init_state_def)

lemma sample_fetches: "length (fetches sample_state) = 1"
  using execute_returns [OF sample_print [OF sample_document], of "init_state sample_client"]
  by (simp add: sample_state_def init_state_def)

lemma sample_controllers: "length (controllers sample_state) = 1"
  using execute_returns [OF sample_print [OF sample_document], of "init_state sample_client"]
  by (simp add: sample_state_def init_state_def)



section \<open>The claims\<close>

text \<open>
  Claim C1. For every call of \<^verbatim>\<open>execute\<close> that reaches the transport, the body of the
  request is \<^verbatim>\<open>JSON.stringify\<close> of a payload object whose \<^verbatim>\<open>query\<close> field is
  \<^verbatim>\<open>print(document)\<close>. A supplied variables mapping is in the payload under
  \<^verbatim>\<open>variables\<close> and a supplied non-empty operation name under \<^verbatim>\<open>operationName\<close>
  (every truthy input is). A \<^verbatim>\<open>variables\<close> field, when present, holds the supplied
  value, and an \<^verbatim>\<open>operationName\<close> field, when present, holds the supplied string; a
  field that is present is never \<^verbatim>\<open>undefined\<close>, \<^verbatim>\<open>null\<close> or (for the operation
  name) empty. When the optional input is absent its key is not in the payload. The
  keys come in the order \<^verbatim>\<open>query\<close>, \<^verbatim>\<open>variables\<close>, \<^verbatim>\<open>operationName\<close>: the
  payload is exactly the query, then the variables if truthy, then the operation name if
  truthy.
\<close>

theorem C1_wire_payload:
  assumes "execute h p s = (Inr hdl, s')"
  shows "\<exists>q body.
           print h (document p) = Some q \<and>
           body = payload q (variables p) (operationName p) \<and>
           get_prop (init (fetches s' ! response hdl)) ''body'' = Str (JSON_stringify h (Obj body)) \<and>
           map_of body ''query'' = Some (Str q) \<and>
           (\<forall>v. map_of body ''variables'' = Some v \<longrightarrow>
                  v = variables p \<and> v \<noteq> Undefined \<and> v \<noteq> Null) \<and>
           (\<forall>v. map_of body ''operationName'' = Some v \<longrightarrow>
                  v = operationName p \<and> v \<noteq> Undefined \<and> v \<noteq> Null \<and> v \<noteq> Str []) \<and>
           (variables p = Undefined \<longrightarrow> ''variables'' \<notin> fst ` set body) \<and>
           (operationName p = Undefined \<longrightarrow> ''operationName'' \<notin> fst ` set body) \<and>
           map fst body =
             filter (\<lambda>k. k \<in> fst ` set body) [''query'', ''variables'', ''operationName''] \<and>
           (truthy (variables p) \<longrightarrow> map_of body ''variables'' = Some (variables p)) \<and>
           (truthy (operationName p) \<longrightarrow>
              map_of body ''operationName'' = Some (operationName p)) \<and>
           (\<forall>kvs. variables p = Obj kvs \<longrightarrow> map_of body ''variables'' = Some (Obj kvs)) \<and>
           (\<forall>n. operationName p = Str n \<and> n \<noteq> [] \<longrightarrow>
                map_of body ''operationName'' = Some (Str n)) \<and>
           body =
             (''query'', Str q) #
             (if truthy (variables p) then [(''variables'', variables p)] else []) @
             (if truthy (operationName p) then [(''operationName'', operationName p)] else [])"
proof -
  from assms obtain q where q: "print h (document p) = Some q"
    by (auto dest: execute_Inr_print)
  let ?body = "payload q (variables p) (operationName p)"
  from assms q have hdl: "response hdl = length (fetches s)"
    and s': "fetches s' = fetches s @
          [\<lparr>input = url (this s),
            init = request (options (this s)) (JSON_stringify h (Obj ?body))
                     (AbortSignal (length (controllers s))),
            promise = Pending\<rparr>]"
    by (auto simp: execute_returns)
  have body: "get_prop (init (fetches s' ! response hdl)) ''body'' = Str (JSON_stringify h (Obj ?body))"
    by (simp add: hdl s')
  have rest: "map_of ?body ''query'' = Some (Str q) \<and>
           (\<forall>v. map_of ?body ''variables'' = Some v \<longrightarrow>
                  v = variables p \<and> v \<noteq> Undefined \<and> v \<noteq> Null) \<and>
           (\<forall>v. map_of ?body ''operationName'' = Some v \<longrightarrow>
                  v = operationName p \<and> v \<noteq> Undefined \<and> v \<noteq> Null \<and> v \<noteq> Str []) \<and>
           (variables p = Undefined \<longrightarrow> ''variables'' \<notin> fst ` set ?body) \<and>
           (operationName p = Undefined \<longrightarrow> ''operationName'' \<notin> fst ` set ?body) \<and>
           map fst ?body =
             filter (\<lambda>k. k \<in> fst ` set ?body) [''query'', ''variables'', ''operationName'']"
    using truthy_defined [of "variables p"] truthy_defined [of "operationName p"]
    by (auto simp: payload_eq)
  have incl: "(truthy (variables p) \<longrightarrow> map_of ?body ''variables'' = Some (variables p)) \<and>
           (truthy (operationName p) \<longrightarrow>
              map_of ?body ''operationName'' = Some (operationName p)) \<and>
           (\<forall>kvs. variables p = Obj kvs \<longrightarrow> map_of ?body ''variables'' = Some (Obj kvs)) \<and>
           (\<forall>n. operationName p = Str n \<and> n \<noteq> [] \<longrightarrow>
                map_of ?body ''operationName'' = Some (Str n))"
    by (auto simp: payload_eq)
  have exact: "?body =
             (''query'', Str q) #
             (if truthy (variables p) then [(''variables'', variables p)] else []) @
             (if truthy (operationName p) then [(''operationName'', operationName p)] else [])"
    by (rule payload_eq)
  from q body rest incl exact show ?thesis by blast
qed

theorem C1_wire_payload_witness:
  "execute sample_host sample_params (init_state sample_client) =
     (Inr \<lparr>response = 0, abort = controller_abort 0\<rparr>, sample_state) \<and>
   get_prop (init (fetches sample_state ! 0)) ''body'' =
     Str (JSON_stringify sample_host
            (Obj [(''query'', Str (document sample_params)),
                  (''variables'', Obj [(''id'', Str ''123'')]),
                  (''operationName'', Str ''GetUser'')])) \<and>
   execute sample_host (sample_params\<lparr>variables := Undefined, operationName := Undefined\<rparr>)
       (init_state sample_client) =
     (Inr \<lparr>response = 0, abort = controller_abort 0\<rparr>,
      snd (execute sample_host (sample_params\<lparr>variables := Undefined, operationName := Undefined\<rparr>)
             (init_state sample_client))) \<and>
   get_prop (init (fetches (snd (execute sample_host
        (sample_params\<lparr>variables := Undefined, operationName := Undefined\<rparr>)
        (init_state sample_client))) ! 0)) ''body'' =
     Str (JSON_stringify sample_host (Obj [(''query'', Str (document sample_params))]))"
proof -
  let ?h0 = "\<lparr>response = 0, abort = controller_abort 0\<rparr>"
  from C1_wire_payload [OF sample_execute] obtain q body where
    q: "print sample_host (document sample_params) = Some q"
    and g: "get_prop (init (fetches sample_state ! response ?h0)) ''body'' =
              Str (JSON_stringify sample_host (Obj body))"
    and b: "body =
             (''query'', Str q) #
             (if truthy (variables sample_params) then [(''variables'', variables sample_params)] else []) @
             (if truthy (operationName sample_params)
              then [(''operationName'', operationName sample_params)] else [])"
    by blast
  from q have q': "q = document sample_params"
    by (simp add: sample_print [OF sample_document])
  have "body = [(''query'', Str (document sample_params)),
                (''variables'', Obj [(''id'', Str ''123'')]),
                (''operationName'', Str ''GetUser'')]"
    by (simp add: b q') (simp add: sample_params_def)
  with g have first: "get_prop (init (fetches sample_state ! 0)) ''body'' =
     Str (JSON_stringify sample_host
            (Obj [(''query'', Str (document sample_params)),
                  (''variables'', Obj [(''id'', Str ''123'')]),
                  (''operationName'', Str ''GetUser'')]))"
    by simp
  let ?p = "sample_params\<lparr>variables := Undefined, operationName := Undefined\<rparr>"
  let ?s = "snd (execute sample_host ?p (init_state sample_client))"
  have d: "document ?p \<noteq> []" using sample_document by simp
  have e: "execute sample_host ?p (init_state sample_client) = (Inr ?h0, ?s)"
    using sample_host_returns [OF d, of "init_state sample_client"]
    by (simp add: init_state_def)
  from C1_wire_payload [OF e] obtain q2 body2 where
    q2: "print sample_host (document ?p) = Some q2"
    and g2: "get_prop (init (fetches ?s ! response ?h0)) ''body'' =
              Str (JSON_stringify sample_host (Obj body2))"
    and b2: "body2 =
             (''query'', Str q2) #
             (if truthy (variables ?p) then [(''variables'', variables ?p)] else []) @
             (if truthy (operationName ?p) then [(''operationName'', operationName ?p)] else [])"
    by blast
  from q2 have q2': "q2 = document sample_params"
    by (simp add: sample_print [OF sample_document])
  have "body2 = [(''query'', Str (document sample_params))]"
    by (simp add: b2 q2')
  with g2 have second: "get_prop (init (fetches ?s ! 0)) ''body'' =
     Str (JSON_stringify sample_host (Obj [(''query'', Str (document sample_params))]))"
    by simp
  from sample_execute first e second show ?thesis by blast
qed



text \<open>
  Claim C3. When \<^verbatim>\<open>print\<close> throws on the document, \<^verbatim>\<open>execute\<close> fails with the
  serialization error and \<^verbatim>\<open>fetch\<close> has not been called: the list of fetch calls is
  the one before the call.
\<close>

theorem C3_serialization_failure:
  assumes "print h (document p) = None"
  shows "fst (execute h p s) = Inl SerializationError \<and>
         fetches (snd (execute h p s)) = fetches s"
  using assms by (simp add: execute_throws)

theorem C3_serialization_failure_witness:
  "print sample_host (document (sample_params\<lparr>document := []\<rparr>)) = None \<and>
   fst (execute sample_host (sample_params\<lparr>document := []\<rparr>) (init_state sample_client)) =
     Inl SerializationError \<and>
   fetches (snd (execute sample_host (sample_params\<lparr>document := []\<rparr>) (init_state sample_client))) = []"
proof -
  have n: "print sample_host (document (sample_params\<lparr>document := []\<rparr>)) = None"
    by (simp add: sample_host_def)
  from C3_serialization_failure [OF n, of "init_state sample_client"] n
  show ?thesis by (simp add: init_state_def)
qed




text \<open>
  Claim C5. Constructing a client from an endpoint text fails with the invalid-endpoint
  error, and yields no client, exactly when \<^verbatim>\<open>new URL(text)\<close> throws; for every text
  that parses, construction succeeds and stores the parsed address and the given options.
\<close>

theorem C5_constructor:
  "(URL_parse h text = None \<longrightarrow>
      new_NanoQLClient h (UrlString text) opts = Inl InvalidEndpoint) \<and>
   (\<forall>u. URL_parse h text = Some u \<longrightarrow>
      new_NanoQLClient h (UrlString text) opts = Inr \<lparr>priv_url = u, priv_options = opts\<rparr>)"
  by (simp add: new_NanoQLClient_def)

theorem C5_constructor_witness:
  "URL_parse sample_host ''example.com/graphql'' = None \<and>
   new_NanoQLClient sample_host (UrlString ''example.com/graphql'') Undefined = Inl InvalidEndpoint \<and>
   URL_parse sample_host ''https://example.com/graphql'' = Some (URL ''https://example.com/graphql'') \<and>
   new_NanoQLClient sample_host (UrlString ''https://example.com/graphql'') Undefined =
     Inr \<lparr>priv_url = URL ''https://example.com/graphql'', priv_options = Undefined\<rparr>"
proof -
  have a: "URL_parse sample_host ''example.com/graphql'' = None"
    by (simp add: sample_host_def)
  have b: "URL_parse sample_host ''https://example.com/graphql'' =
             Some (URL ''https://example.com/graphql'')"
    by (simp add: sample_host_def)
  from C5_constructor [of sample_host "''example.com/graphql''" Undefined]
       C5_constructor [of sample_host "''https://example.com/graphql''" Undefined] a b
  show ?thesis by simp
qed

text \<open>
  Claim C6. For a constructed client, \<^verbatim>\<open>url\<close> is the normalized text of the address
  (of the parsed text, or of the URL object given), \<^verbatim>\<open>options\<close> is the value passed
  as default options (\<^verbatim>\<open>undefined\<close> when none was passed), and both accessors return
  the same after any run of calls, aborts and settlements.
\<close>

theorem C6_accessors:
  assumes "new_NanoQLClient h u opts = Inr c"
  shows "(\<forall>text. u = UrlString text \<longrightarrow> (\<exists>a. URL_parse h text = Some a \<and> url c = href a)) \<and>
         (\<forall>a. u = UrlObject a \<longrightarrow> url c = href a) \<and>
         options c = opts \<and>
         (\<forall>evs. url (this (run h evs (init_state c))) = url c \<and>
                options (this (run h evs (init_state c))) = opts)"
  using assms
  by (auto simp: new_NanoQLClient_def url_def options_def init_state_def
           split: url_arg.splits option.splits)

theorem C6_accessors_witness:
  "new_NanoQLClient sample_host (UrlString ''https://example.com/graphql'')
     (priv_options sample_client) = Inr sample_client \<and>
   url sample_client = ''https://example.com/graphql'' \<and>
   options sample_client = priv_options sample_client \<and>
   url (this (run sample_host [Execute sample_params, Abort 0 Undefined]
                (init_state sample_client))) = url sample_client"
proof -
  have n: "new_NanoQLClient sample_host (UrlString ''https://example.com/graphql'')
             (priv_options sample_client) = Inr sample_client"
    by (simp add: new_NanoQLClient_def sample_host_def sample_client_def)
  have p: "URL_parse sample_host ''https://example.com/graphql'' =
             Some (URL ''https://example.com/graphql'')"
    by (simp add: sample_host_def)
  from C6_accessors [OF n] n p show ?thesis by auto
qed

text \<open>
  Claim C7. \<^verbatim>\<open>execute\<close> never writes the client instance: its address and default
  options are the same afterwards. When \<^verbatim>\<open>execute\<close> returns, exactly one call of
  \<^verbatim>\<open>fetch\<close> has been added, to the client's address, and it is in flight.
\<close>

theorem C7_no_mutation_one_request:
  "this (snd (execute h p s)) = this s \<and>
   (\<forall>hdl s'. execute h p s = (Inr hdl, s') \<longrightarrow>
      (\<exists>f. fetches s' = fetches s @ [f] \<and> input f = url (this s) \<and> promise f = Pending))"
proof -
  have "\<exists>f. fetches s' = fetches s @ [f] \<and> input f = url (this s) \<and> promise f = Pending"
    if "execute h p s = (Inr hdl, s')" for hdl s'
  proof -
    from that obtain q where "print h (document p) = Some q"
      by (auto dest: execute_Inr_print)
    with that show ?thesis by (auto simp: execute_returns)
  qed
  then show ?thesis by simp
qed

theorem C7_no_mutation_one_request_witness:
  "execute sample_host sample_params (init_state sample_client) =
     (Inr \<lparr>response = 0, abort = controller_abort 0\<rparr>, sample_state) \<and>
   this sample_state = sample_client \<and>
   length (fetches sample_state) = 1 \<and>
   input (fetches sample_state ! 0) = ''https://example.com/graphql''"
proof -
  have t: "this (init_state sample_client) = sample_client"
    and f: "fetches (init_state sample_client) = []"
    by (simp_all add: init_state_def)
  have u: "url sample_client = ''https://example.com/graphql''"
    by (simp add: sample_client_def url_def)
  from C7_no_mutation_one_request [of sample_host sample_params "init_state sample_client"]
       sample_execute t f u
  show ?thesis by auto
qed

text \<open>
  Claim C8. A call of \<^verbatim>\<open>execute\<close> that returns adds exactly one fetch and exactly
  one controller, a new one whose signal the fetch is given. For two calls on the same
  client, with anything happening between and after them: their promises are different,
  their signals are different, aborting either call changes neither the fetch (options
  and promise) nor the signal state of the other, and the client instance is the same
  throughout.
\<close>

theorem C8_calls_independent:
  assumes "execute h p1 s0 = (Inr h1, s1)"
    and "execute h p2 (run h evs s1) = (Inr h2, s3)"
  shows "length (fetches s1) = Suc (length (fetches s0)) \<and>
         controllers s1 = controllers s0 @ [None] \<and>
         signal_of (fetches s1 ! response h1) = AbortSignal (length (controllers s0)) \<and>
         response h1 \<noteq> response h2 \<and>
         this s3 = this s0 \<and>
         (\<forall>evs' r. let s4 = run h evs' s3 in
            signal_of (fetches s4 ! response h1) \<noteq> signal_of (fetches s4 ! response h2) \<and>
            fetches (abort h1 r s4) ! response h2 = fetches s4 ! response h2 \<and>
            fetches (abort h2 r s4) ! response h1 = fetches s4 ! response h1 \<and>
            signal_reason (abort h1 r s4) (signal_of (fetches s4 ! response h2)) =
              signal_reason s4 (signal_of (fetches s4 ! response h2)) \<and>
            signal_reason (abort h2 r s4) (signal_of (fetches s4 ! response h1)) =
              signal_reason s4 (signal_of (fetches s4 ! response h1)) \<and>
            this s4 = this s0)"
proof -
  let ?s2 = "run h evs s1"
  let ?c1 = "length (controllers s0)" and ?i1 = "response h1"
  let ?c2 = "length (controllers ?s2)" and ?i2 = "response h2"
  from call_inv_after_execute [OF assms(1)]
  have inv1: "call_inv s1 ?c1 ?i1" and ab1: "abort h1 = controller_abort ?c1"
    and i1: "?i1 = length (fetches s0)"
    by blast+
  from call_inv_after_execute [OF assms(2)]
  have inv2: "call_inv s3 ?c2 ?i2" and ab2: "abort h2 = controller_abort ?c2"
    and i2: "?i2 = length (fetches ?s2)"
    by blast+
  from assms(1) obtain q1 where q1: "print h (document p1) = Some q1"
    by (auto dest: execute_Inr_print)
  from assms(1) q1 have one: "length (fetches s1) = Suc (length (fetches s0))"
    and tok: "controllers s1 = controllers s0 @ [None]"
    by (auto simp: execute_returns)
  from inv1 have sig1: "signal_of (fetches s1 ! ?i1) = AbortSignal ?c1"
    by (simp add: call_inv_def)
  from call_inv_run [OF inv1, of h evs] have inv1': "call_inv ?s2 ?c1 ?i1" .
  then have lt: "?c1 < ?c2" "?i1 < ?i2"
    by (simp_all add: call_inv_def i2)
  from assms(2) have s3: "s3 = snd (execute h p2 ?s2)" by simp
  from call_inv_execute [OF inv1', of h p2] have inv1'': "call_inv s3 ?c1 ?i1"
    by (simp add: s3)
  have this3: "this s3 = this s0"
    using assms(1) by (simp add: s3) (metis this_execute snd_conv)
  have later: "signal_of (fetches s4 ! ?i1) \<noteq> signal_of (fetches s4 ! ?i2) \<and>
            fetches (abort h1 r s4) ! ?i2 = fetches s4 ! ?i2 \<and>
            fetches (abort h2 r s4) ! ?i1 = fetches s4 ! ?i1 \<and>
            signal_reason (abort h1 r s4) (signal_of (fetches s4 ! ?i2)) =
              signal_reason s4 (signal_of (fetches s4 ! ?i2)) \<and>
            signal_reason (abort h2 r s4) (signal_of (fetches s4 ! ?i1)) =
              signal_reason s4 (signal_of (fetches s4 ! ?i1)) \<and>
            this s4 = this s0"
    if s4: "s4 = run h evs' s3" for evs' r s4
  proof -
    from call_inv_run [OF inv1'', of h evs'] have a1: "call_inv s4 ?c1 ?i1" by (simp add: s4)
    from call_inv_run [OF inv2, of h evs'] have a2: "call_inv s4 ?c2 ?i2" by (simp add: s4)
    from a1 have g1: "signal_of (fetches s4 ! ?i1) = AbortSignal ?c1" "?i1 < length (fetches s4)"
      by (simp_all add: call_inv_def)
    from a2 have g2: "signal_of (fetches s4 ! ?i2) = AbortSignal ?c2" "?i2 < length (fetches s4)"
      by (simp_all add: call_inv_def)
    from lt have ne: "?c1 \<noteq> ?c2" by simp
    have "this s4 = this s0" by (simp add: s4 this3)
    with g1 g2 ne show ?thesis
      by (simp add: ab1 ab2 controller_abort_other_fetch signal_reason_controller_abort_other)
  qed
  have all: "\<forall>evs' r. let s4 = run h evs' s3 in
            signal_of (fetches s4 ! ?i1) \<noteq> signal_of (fetches s4 ! ?i2) \<and>
            fetches (abort h1 r s4) ! ?i2 = fetches s4 ! ?i2 \<and>
            fetches (abort h2 r s4) ! ?i1 = fetches s4 ! ?i1 \<and>
            signal_reason (abort h1 r s4) (signal_of (fetches s4 ! ?i2)) =
              signal_reason s4 (signal_of (fetches s4 ! ?i2)) \<and>
            signal_reason (abort h2 r s4) (signal_of (fetches s4 ! ?i1)) =
              signal_reason s4 (signal_of (fetches s4 ! ?i1)) \<and>
            this s4 = this s0"
    unfolding Let_def
  proof (intro allI)
    fix evs' r
    show "signal_of (fetches (run h evs' s3) ! ?i1) \<noteq> signal_of (fetches (run h evs' s3) ! ?i2) \<and>
            fetches (abort h1 r (run h evs' s3)) ! ?i2 = fetches (run h evs' s3) ! ?i2 \<and>
            fetches (abort h2 r (run h evs' s3)) ! ?i1 = fetches (run h evs' s3) ! ?i1 \<and>
            signal_reason (abort h1 r (run h evs' s3)) (signal_of (fetches (run h evs' s3) ! ?i2)) =
              signal_reason (run h evs' s3) (signal_of (fetches (run h evs' s3) ! ?i2)) \<and>
            signal_reason (abort h2 r (run h evs' s3)) (signal_of (fetches (run h evs' s3) ! ?i1)) =
              signal_reason (run h evs' s3) (signal_of (fetches (run h evs' s3) ! ?i1)) \<and>
            this (run h evs' s3) = this s0"
      by (rule later [OF refl])
  qed
  from lt(2) have ne_i: "?i1 \<noteq> ?i2" by simp
  from one tok sig1 ne_i this3 all show ?thesis by blast
qed

theorem C8_calls_independent_witness:
  "execute sample_host sample_params (init_state sample_client) =
     (Inr \<lparr>response = 0, abort = controller_abort 0\<rparr>, sample_state) \<and>
   execute sample_host sample_params (run sample_host [] sample_state) =
     (Inr \<lparr>response = 1, abort = controller_abort 1\<rparr>,
      snd (execute sample_host sample_params sample_state)) \<and>
   controllers sample_state = [None] \<and>
   fetches (controller_abort 0 Undefined (snd (execute sample_host sample_params sample_state))) ! 1 =
     fetches (snd (execute sample_host sample_params sample_state)) ! 1 \<and>
   fetches (controller_abort 1 Undefined (snd (execute sample_host sample_params sample_state))) ! 0 =
     fetches (snd (execute sample_host sample_params sample_state)) ! 0"
proof -
  let ?s3 = "snd (execute sample_host sample_params sample_state)"
  have second: "execute sample_host sample_params (run sample_host [] sample_state) =
     (Inr \<lparr>response = 1, abort = controller_abort 1\<rparr>, ?s3)"
    using sample_host_returns [OF sample_document, of sample_state] sample_fetches sample_controllers
    by simp
  have c: "controllers (init_state sample_client) = []"
    by (simp add: init_state_def)
  note c8 = C8_calls_independent [OF sample_execute second]
  from c8 [THEN conjunct2, THEN conjunct1] c
  have one: "controllers sample_state = [None]" by simp
  note later = c8 [THEN conjunct2, THEN conjunct2, THEN conjunct2, THEN conjunct2, THEN conjunct2,
                   rule_format, of "[]" Undefined, unfolded Let_def]
  from later [THEN conjunct2, THEN conjunct1]
  have a: "fetches (controller_abort 0 Undefined ?s3) ! 1 = fetches ?s3 ! 1" by simp
  from later [THEN conjunct2, THEN conjunct2, THEN conjunct1]
  have b: "fetches (controller_abort 1 Undefined ?s3) ! 0 = fetches ?s3 ! 0" by simp
  from sample_execute second one a b show ?thesis by blast
qed



text \<open>
  Claim C10. When the default \<^verbatim>\<open>headers\<close> are an instance of \<^verbatim>\<open>Headers\<close>, the
  headers of the request are \<^verbatim>\<open>Content-Type: application/json\<close> alone. When they are
  an array of name/value pairs, the spread copies the pairs under their indices, so the
  only entry of the request's headers that binds a name to a string is
  \<^verbatim>\<open>Content-Type: application/json\<close>: no default header name carries its value.
\<close>

theorem C10_other_header_forms:
  assumes "execute h p s = (Inr hdl, s')"
  shows "(\<forall>entries. get_prop (options (this s)) ''headers'' = Headers entries \<longrightarrow>
            get_prop (init (fetches s' ! response hdl)) ''headers'' =
              Obj [(''Content-Type'', Str ''application/json'')]) \<and>
         (\<forall>entries. get_prop (options (this s)) ''headers'' =
                      Arr (map (\<lambda>(n, v). Arr [Str n, Str v]) entries) \<longrightarrow>
            get_prop (get_prop (init (fetches s' ! response hdl)) ''headers'') ''Content-Type'' =
              Str ''application/json'' \<and>
            (\<forall>n v. get_prop (get_prop (init (fetches s' ! response hdl)) ''headers'') n = Str v \<longrightarrow>
                   n = ''Content-Type'' \<and> v = ''application/json''))"
proof -
  from assms obtain q where q: "print h (document p) = Some q"
    by (auto dest: execute_Inr_print)
  let ?H = "get_prop (init (fetches s' ! response hdl)) ''headers''"
  from assms q have H: "?H = object_literal (own_props (get_prop (options (this s)) ''headers'') @
                     [(''Content-Type'', Str ''application/json'')])"
    by (auto simp: execute_returns)
  have a: "?H = Obj [(''Content-Type'', Str ''application/json'')]"
    if "get_prop (options (this s)) ''headers'' = Headers entries" for entries
    by (simp add: H that object_literal_def set_prop_def)
  have b: "get_prop ?H ''Content-Type'' = Str ''application/json'' \<and>
           (\<forall>n v. get_prop ?H n = Str v \<longrightarrow> n = ''Content-Type'' \<and> v = ''application/json'')"
    if e: "get_prop (options (this s)) ''headers'' =
             Arr (map (\<lambda>(n, v). Arr [Str n, Str v]) entries)" for entries
  proof -
    let ?vs = "map (\<lambda>(n, v). Arr [Str n, Str v]) entries"
    let ?ps = "zip (map show_nat [0..<length ?vs]) ?vs"
    have HH: "?H = object_literal (?ps @ [(''Content-Type'', Str ''application/json'')])"
      by (simp add: H e)
    have ct: "get_prop ?H ''Content-Type'' = Str ''application/json''"
      by (simp add: HH get_prop_object_literal)
    have other: "n = ''Content-Type'' \<and> v = ''application/json''" if g: "get_prop ?H n = Str v" for n v
    proof (cases "n = ''Content-Type''")
      case True
      with g ct show ?thesis by simp
    next
      case False
      with g have "map_of (rev ?ps) n = Some (Str v)"
        by (simp add: HH get_prop_object_literal split: option.splits)
      then have "Str v \<in> set ?vs" by (rule map_of_rev_zip_in_set)
      then show ?thesis by auto
    qed
    from ct other show ?thesis by blast
  qed
  from a b show ?thesis by blast
qed

theorem C10_other_header_forms_witness:
  "execute sample_host sample_params
     (init_state (sample_client\<lparr>priv_options :=
        Obj [(''headers'', Headers [(''Authorization'', ''Bearer token'')])]\<rparr>)) =
     (Inr \<lparr>response = 0, abort = controller_abort 0\<rparr>,
      snd (execute sample_host sample_params
        (init_state (sample_client\<lparr>priv_options :=
           Obj [(''headers'', Headers [(''Authorization'', ''Bearer token'')])]\<rparr>)))) \<and>
   get_prop (init (fetches (snd (execute sample_host sample_params
        (init_state (sample_client\<lparr>priv_options :=
           Obj [(''headers'', Headers [(''Authorization'', ''Bearer token'')])]\<rparr>)))) ! 0)) ''headers'' =
     Obj [(''Content-Type'', Str ''application/json'')] \<and>
   execute sample_host sample_params
     (init_state (sample_client\<lparr>priv_options :=
        Obj [(''headers'', Arr [Arr [Str ''Authorization'', Str ''Bearer token'']])]\<rparr>)) =
     (Inr \<lparr>response = 0, abort = controller_abort 0\<rparr>,
      snd (execute sample_host sample_params
        (init_state (sample_client\<lparr>priv_options :=
           Obj [(''headers'', Arr [Arr [Str ''Authorization'', Str ''Bearer token'']])]\<rparr>)))) \<and>
   get_prop (get_prop (init (fetches (snd (execute sample_host sample_params
        (init_state (sample_client\<lparr>priv_options :=
           Obj [(''headers'', Arr [Arr [Str ''Authorization'', Str ''Bearer token'']])]\<rparr>)))) ! 0))
        ''headers'') ''Authorization'' \<noteq> Str ''Bearer token'' \<and>
   get_prop (get_prop (init (fetches (snd (execute sample_host sample_params
        (init_state (sample_client\<lparr>priv_options :=
           Obj [(''headers'', Arr [Arr [Str ''Authorization'', Str ''Bearer token'']])]\<rparr>)))) ! 0))
        ''headers'') ''Content-Type'' = Str ''application/json''"
proof -
  let ?s = "init_state (sample_client\<lparr>priv_options :=
        Obj [(''headers'', Headers [(''Authorization'', ''Bearer token'')])]\<rparr>)"
  let ?t = "init_state (sample_client\<lparr>priv_options :=
        Obj [(''headers'', Arr [Arr [Str ''Authorization'', Str ''Bearer token'']])]\<rparr>)"
  let ?H = "get_prop (init (fetches (snd (execute sample_host sample_params ?t)) ! 0)) ''headers''"
  have e: "execute sample_host sample_params ?s =
     (Inr \<lparr>response = 0, abort = controller_abort 0\<rparr>, snd (execute sample_host sample_params ?s))"
    using sample_host_returns [OF sample_document, of ?s]
    by (simp add: init_state_def)
  have g: "get_prop (options (this ?s)) ''headers'' = Headers [(''Authorization'', ''Bearer token'')]"
    by (simp add: init_state_def options_def)
  from C10_other_header_forms [OF e, THEN conjunct1, rule_format, OF g]
  have a: "get_prop (init (fetches (snd (execute sample_host sample_params ?s)) ! 0)) ''headers'' =
             Obj [(''Content-Type'', Str ''application/json'')]"
    by simp
  have e': "execute sample_host sample_params ?t =
     (Inr \<lparr>response = 0, abort = controller_abort 0\<rparr>, snd (execute sample_host sample_params ?t))"
    using sample_host_returns [OF sample_document, of ?t]
    by (simp add: init_state_def)
  have g': "get_prop (options (this ?t)) ''headers'' =
              Arr (map (\<lambda>(n, v). Arr [Str n, Str v]) [(''Authorization'', ''Bearer token'')])"
    by (simp add: init_state_def options_def)
  note arr = C10_other_header_forms [OF e', THEN conjunct2, rule_format, OF g']
  from arr [THEN conjunct1] have ct: "get_prop ?H ''Content-Type'' = Str ''application/json''"
    by simp
  have au: "get_prop ?H ''Authorization'' \<noteq> Str ''Bearer token''"
  proof
    assume "get_prop ?H ''Authorization'' = Str ''Bearer token''"
    then have "get_prop (get_prop (init (fetches (snd (execute sample_host sample_params ?t)) !
                 response \<lparr>response = 0, abort = controller_abort 0\<rparr>)) ''headers'')
                 ''Authorization'' = Str ''Bearer token''"
      by simp
    from arr [THEN conjunct2, rule_format, OF this] show False by simp
  qed
  from e a e' au ct show ?thesis by blast
qed

end
